theory Spec2Isabelle
  imports Complex_Main
begin

section \<open>Text\<close>

text \<open>
  Text is held as Isabelle strings. A character outside ASCII stands as its UTF-8 bytes,
  and \<open>toLowerCase\<close> folds the letters A to Z only; every other byte is left as it is.
\<close>

definition lower_char :: "char \<Rightarrow> char" where
  "lower_char c =
     (let n = (of_char c :: nat) in if 65 \<le> n \<and> n \<le> 90 then char_of (n + 32) else c)"

definition toLowerCase :: "string \<Rightarrow> string" where
  "toLowerCase s = map lower_char s"

fun startsWith :: "string \<Rightarrow> string \<Rightarrow> bool" where
  "startsWith s [] = True"
| "startsWith [] (k # ks) = False"
| "startsWith (c # s) (k # ks) = (c = k \<and> startsWith s ks)"

text \<open>\<open>s.includes(k)\<close>: \<open>k\<close> occurs in \<open>s\<close> as a contiguous run.\<close>

fun str_includes :: "string \<Rightarrow> string \<Rightarrow> bool" where
  "str_includes [] k = (k = [])"
| "str_includes (c # s) k = (startsWith (c # s) k \<or> str_includes s k)"

text \<open>Decimal digits of a number, as a template literal prints it.\<close>

fun show_nat :: "nat \<Rightarrow> string" where
  "show_nat n =
     (if n < 10 then [char_of (48 + n)]
      else show_nat (n div 10) @ [char_of (48 + n mod 10)])"

declare show_nat.simps [simp del]

text \<open>\<open>a || b\<close> on an optional string: absent and empty are both falsy.\<close>

definition or_else :: "string option \<Rightarrow> string \<Rightarrow> string" where
  "or_else a b = (case a of None \<Rightarrow> b | Some s \<Rightarrow> if s = [] then b else s)"

section \<open>Data model\<close>

datatype api_status = Success | Error

record 'a ApiResponse =
  status :: api_status
  message :: "string option"
  data :: "'a option"
  timestamp :: "string option"

datatype model_type = Basic | Enhanced

datatype language = En | Hi | Te | Ta

datatype source = Dataset | Gemini

record HybridChatRequest =
  req_message :: string
  req_session_id :: "string option"
  use_dataset :: "bool option"
  req_model_type :: "model_type option"

record HybridChatResponse =
  response :: string
  source :: source
  session_id :: string
  response_time :: real
  res_timestamp :: string
  confidence :: "real option"

text \<open>The dataset client's request and reply (\<open>ChatRequest\<close>, \<open>ChatResponse\<close>).\<close>

record ChatRequest =
  chat_message :: string
  chat_model_type :: "model_type option"
  chat_session_id :: "string option"

record ChatResponse =
  ds_confidence :: "real option"
  ds_response :: string
  ds_session_id :: string
  ds_model_type :: string
  ds_response_time :: real
  ds_timestamp :: string

record GeminiChatRequest =
  gm_message :: string
  gm_session_id :: "string option"
  target_language :: "language option"

record GeminiChatResponse =
  gm_response :: string
  gm_res_session_id :: string
  gm_response_time :: real
  gm_timestamp :: string

record HealthData =
  dataset_backend :: bool
  gemini_api :: bool
  hybrid_mode :: bool

text \<open>
  A thrown value: an \<open>Error\<close> instance with its name and message, or any other value
  with its \<open>message\<close> property, when it has one.
\<close>

datatype thrown = JsError string string | NonError "string option"

definition new_Error :: "string \<Rightarrow> thrown" where
  "new_Error m = JsError ''Error'' m"

text \<open>\<open>e?.message\<close> of a caught value.\<close>

definition thrown_message :: "thrown \<Rightarrow> string option" where
  "thrown_message e = (case e of JsError n m \<Rightarrow> Some m | NonError m \<Rightarrow> m)"

text \<open>A promise once settled; also what \<open>Promise.allSettled\<close> hands back per entry.\<close>

datatype 'a settled = Rejected thrown | Fulfilled 'a

text \<open>
  What \<open>fetch\<close> gives the dataset client: a rejection, or a response with its status
  code, its status text and what \<open>response.json()\<close> yields (a throw, or the body;
  \<open>None\<close> is the body \<open>null\<close>).
\<close>

datatype 'a http_result = FetchRejects thrown | FetchResponds nat string "thrown + 'a option"

type_synonym json = string

datatype call = GeminiSend GeminiChatRequest | DatasetSend ChatRequest

text \<open>
  Everything outside the module: the base-36 text of the random draw
  (\<open>Math.random().toString(36)\<close>, such as \<open>0.4fzyo82mvyr\<close> or \<open>0.i\<close>), the message of
  the \<open>TypeError\<close> that the engine throws when a property of \<open>null\<close> is read, the clock
  (\<open>Date.now()\<close> on entry and at the return, in milliseconds, and the ISO text of
  \<open>new Date()\<close>), and the network.
  \<open>gemini_net n q\<close> is how the \<open>n\<close>-th POST of a call to the relay ends, counted from 0:
  \<open>fetch\<close> or \<open>res.json()\<close> throws, or the parsed body, which the client hands on through
  an unchecked cast: \<open>None\<close> is the body \<open>null\<close>, any other body is read as an envelope.
  \<open>dataset_net q\<close> is how the POST to \<open>/chat\<close> ends.
\<close>

record env =
  random_text :: string
  null_read_text :: string
  startTime :: int
  returnTime :: int
  isoNow :: string
  gemini_net :: "nat \<Rightarrow> GeminiChatRequest \<Rightarrow> (GeminiChatResponse ApiResponse option) settled"
  dataset_net :: "ChatRequest \<Rightarrow> ChatResponse http_result"
  gemini_health_net :: "(json ApiResponse option) settled"
  dataset_health_net :: "json http_result"

text \<open>\<open>s.substring(n)\<close>: the text from index \<open>n\<close> on, empty when \<open>s\<close> is no longer than \<open>n\<close>.\<close>

definition substring :: "string \<Rightarrow> nat \<Rightarrow> string" where
  "substring s n = drop n s"

text \<open>The session token: \<open>Math.random().toString(36).substring(7)\<close>.\<close>

definition random_token :: "env \<Rightarrow> string" where
  "random_token e = substring (random_text e) 7"

text \<open>What reading \<open>.status\<close> of a \<open>null\<close> reply throws.\<close>

definition null_read :: "env \<Rightarrow> thrown" where
  "null_read e = JsError ''TypeError'' (null_read_text e)"

section \<open>The dataset client (\<open>ApiService\<close>)\<close>

definition response_ok :: "nat \<Rightarrow> bool" where
  "response_ok st = (200 \<le> st \<and> st \<le> 299)"

text \<open>The \<open>try\<close> block of \<open>makeRequest\<close>.\<close>

definition makeRequest_try :: "string \<Rightarrow> 'a http_result \<Rightarrow> thrown + 'a ApiResponse" where
  "makeRequest_try stamp f =
     (case f of
        FetchRejects e \<Rightarrow> Inl e
      | FetchResponds st stText body \<Rightarrow>
          if \<not> response_ok st then
            (if st = 429 then
               Inl (new_Error ''Rate limit exceeded. Please wait before trying again.'')
             else if st = 404 then
               Inl (new_Error ''API endpoint not found. Please check if the backend is running.'')
             else if st \<ge> 500 then
               Inl (new_Error ''Server error. Please try again later.'')
             else Inl (new_Error (''HTTP '' @ show_nat st @ '': '' @ stText)))
          else
            (case body of
               Inl e \<Rightarrow> Inl e
             | Inr d \<Rightarrow>
                 Inr \<lparr>status = Success, message = None, data = d, timestamp = Some stamp\<rparr>))"

text \<open>Its \<open>catch\<close> block: every path throws again.\<close>

definition makeRequest_catch :: "thrown \<Rightarrow> thrown" where
  "makeRequest_catch err =
     (case err of
        JsError n m \<Rightarrow>
          if n = ''AbortError'' then
            new_Error ''Request timeout. Please check your connection and try again.''
          else if str_includes m ''fetch'' then
            new_Error
              ''Unable to connect to the backend. Please ensure the Flask server is running on http://localhost:5000''
          else err
      | NonError m \<Rightarrow> new_Error ''An unexpected error occurred'')"

definition makeRequest :: "string \<Rightarrow> 'a http_result \<Rightarrow> thrown + 'a ApiResponse" where
  "makeRequest stamp f =
     (case makeRequest_try stamp f of
        Inl e \<Rightarrow> Inl (makeRequest_catch e)
      | Inr r \<Rightarrow> Inr r)"

definition apiService_sendMessage ::
  "env \<Rightarrow> ChatRequest \<Rightarrow> call list \<Rightarrow> (thrown + ChatResponse ApiResponse) \<times> call list" where
  "apiService_sendMessage e q tr =
     (makeRequest (isoNow e) (dataset_net e q), tr @ [DatasetSend q])"

definition apiService_healthCheck :: "env \<Rightarrow> thrown + json ApiResponse" where
  "apiService_healthCheck e = makeRequest (isoNow e) (dataset_health_net e)"

section \<open>The generative client (\<open>GeminiApiService\<close>)\<close>

fun is_gemini_call :: "call \<Rightarrow> bool" where
  "is_gemini_call (GeminiSend q) = True"
| "is_gemini_call (DatasetSend q) = False"

fun is_dataset_call :: "call \<Rightarrow> bool" where
  "is_dataset_call (GeminiSend q) = False"
| "is_dataset_call (DatasetSend q) = True"

text \<open>
  \<open>sendMessage\<close> of the generative client wraps its whole body in \<open>try/catch\<close> and turns a
  throw into an error envelope; a parsed body is returned as it is, \<open>null\<close> included
  (\<open>None\<close>). The result type keeps the throwing branch, which the callers handle, although
  this body never takes it.
\<close>

definition geminiApiService_sendMessage ::
  "env \<Rightarrow> GeminiChatRequest \<Rightarrow> call list \<Rightarrow>
     (thrown + GeminiChatResponse ApiResponse option) \<times> call list" where
  "geminiApiService_sendMessage e q tr =
     (case gemini_net e (length (filter is_gemini_call tr)) q of
        Fulfilled j \<Rightarrow> Inr j
      | Rejected x \<Rightarrow>
          Inr (Some \<lparr>status = Error,
                     message = Some (or_else (thrown_message x) ''Network error''),
                     data = None,
                     timestamp = Some (isoNow e)\<rparr>),
      tr @ [GeminiSend q])"

text \<open>
  \<open>testConnection\<close>: whether the relay answered with status success, and its message.
  Reading \<open>json.status\<close> of a \<open>null\<close> body throws inside the \<open>try\<close> and is caught there.
\<close>

definition geminiApiService_testConnection :: "env \<Rightarrow> bool \<times> string option" where
  "geminiApiService_testConnection e =
     (case gemini_health_net e of
        Fulfilled (Some j) \<Rightarrow> (status j = Success, message j)
      | Fulfilled None \<Rightarrow>
          (False, Some (or_else (thrown_message (null_read e)) ''Network error''))
      | Rejected x \<Rightarrow> (False, Some (or_else (thrown_message x) ''Network error'')))"

definition geminiApiService_healthCheck :: "env \<Rightarrow> thrown + json ApiResponse" where
  "geminiApiService_healthCheck e =
     (let connection = geminiApiService_testConnection e
      in Inr \<lparr>status = (if fst connection then Success else Error),
              message = snd connection,
              data = None,
              timestamp = Some (isoNow e)\<rparr>)"

section \<open>The hybrid service (\<open>HybridChatService\<close>)\<close>

definition supportKeywords :: "string list" where
  "supportKeywords =
     [''help'', ''support'', ''problem'', ''issue'', ''error'', ''bug'', ''complaint'',
      ''refund'', ''return'', ''cancel'', ''billing'', ''payment'', ''account'', ''login'',
      ''password'', ''reset'', ''contact'', ''phone'', ''email'']"

definition isCustomerSupportQuery :: "string \<Rightarrow> bool" where
  "isCustomerSupportQuery msg =
     (let lowerMessage = toLowerCase msg
      in list_ex (\<lambda>keyword. str_includes lowerMessage keyword) supportKeywords)"

text \<open>The object literals that \<open>sendMessage\<close> returns.\<close>

definition elapsed :: "env \<Rightarrow> real" where
  "elapsed e = real_of_int (returnTime e - startTime e) / 1000"

definition gemini_result :: "env \<Rightarrow> string \<Rightarrow> GeminiChatResponse \<Rightarrow> HybridChatResponse ApiResponse" where
  "gemini_result e sessionId d =
     \<lparr>status = Success, message = None,
      data = Some \<lparr>response = gm_response d, source = Gemini, session_id = sessionId,
                   response_time = elapsed e, res_timestamp = isoNow e, confidence = None\<rparr>,
      timestamp = Some (isoNow e)\<rparr>"

definition dataset_result :: "env \<Rightarrow> string \<Rightarrow> ChatResponse \<Rightarrow> HybridChatResponse ApiResponse" where
  "dataset_result e sessionId d =
     \<lparr>status = Success, message = None,
      data = Some \<lparr>response = ds_response d, source = Dataset, session_id = sessionId,
                   response_time = elapsed e, res_timestamp = isoNow e,
                   confidence = ds_confidence d\<rparr>,
      timestamp = Some (isoNow e)\<rparr>"

text \<open>The arrow of the source text is U+2192, here its three UTF-8 bytes.\<close>

definition guidance_text :: string where
  "guidance_text =
     ''I'm having trouble connecting to my AI services right now. Please check that your Gemini API key is properly configured in Project Settings ''
     @ [CHR 0xE2, CHR 0x86, CHR 0x92]
     @ '' Environment Variables. You can get a free API key from Google AI Studio (aistudio.google.com).''"

definition guidance_result :: "env \<Rightarrow> string \<Rightarrow> HybridChatResponse ApiResponse" where
  "guidance_result e sessionId =
     \<lparr>status = Success, message = None,
      data = Some \<lparr>response = guidance_text, source = Gemini, session_id = sessionId,
                   response_time = elapsed e, res_timestamp = isoNow e, confidence = None\<rparr>,
      timestamp = Some (isoNow e)\<rparr>"

definition error_result :: "env \<Rightarrow> thrown \<Rightarrow> HybridChatResponse ApiResponse" where
  "error_result e x =
     \<lparr>status = Error,
      message = Some (case x of JsError n m \<Rightarrow> m
                      | NonError m \<Rightarrow> ''Failed to get response from any AI service''),
      data = None,
      timestamp = Some (isoNow e)\<rparr>"

text \<open>
  The requests handed to the two clients: lines 29 to 32 and 83 to 86 for the generative
  client, lines 56 to 60 for the dataset client, where an absent \<open>model_type\<close> becomes
  \<open>enhanced\<close>.
\<close>

definition gemini_request :: "HybridChatRequest \<Rightarrow> string \<Rightarrow> GeminiChatRequest" where
  "gemini_request request sessionId =
     \<lparr>gm_message = req_message request, gm_session_id = Some sessionId,
      target_language = None\<rparr>"

definition dataset_request :: "HybridChatRequest \<Rightarrow> string \<Rightarrow> ChatRequest" where
  "dataset_request request sessionId =
     \<lparr>chat_message = req_message request,
      chat_model_type =
        Some (case req_model_type request of None \<Rightarrow> Enhanced | Some m \<Rightarrow> m),
      chat_session_id = Some sessionId\<rparr>"

text \<open>How one stage of \<open>sendMessage\<close> ends: it returns, or control falls to the next.\<close>

datatype 'a flow = Return 'a | Fallthrough

text \<open>
  Lines 26 to 51: the generative backend first, unless the dataset is preferred and the
  message is a support query. A throw is caught and logged, also the \<open>TypeError\<close> of
  reading \<open>geminiResponse.status\<close> when the reply is \<open>null\<close>.
\<close>

definition gemini_first ::
  "env \<Rightarrow> HybridChatRequest \<Rightarrow> string \<Rightarrow> call list \<Rightarrow>
     (HybridChatResponse ApiResponse) flow \<times> call list" where
  "gemini_first e request sessionId tr =
     (if use_dataset request \<noteq> Some True \<or> \<not> isCustomerSupportQuery (req_message request) then
        (case geminiApiService_sendMessage e (gemini_request request sessionId) tr of
           (Inr (Some geminiResponse), tr') \<Rightarrow>
             (case data geminiResponse of
                Some d \<Rightarrow>
                  if status geminiResponse = Success then (Return (gemini_result e sessionId d), tr')
                  else (Fallthrough, tr')
              | None \<Rightarrow> (Fallthrough, tr'))
         | (Inr None, tr') \<Rightarrow> (Fallthrough, tr')
         | (Inl x, tr') \<Rightarrow> (Fallthrough, tr'))
      else (Fallthrough, tr))"

text \<open>
  Lines 53 to 80: the dataset backend, when it is preferred or the message is a support
  query. A throw is caught and logged.
\<close>

definition dataset_stage ::
  "env \<Rightarrow> HybridChatRequest \<Rightarrow> string \<Rightarrow> call list \<Rightarrow>
     (HybridChatResponse ApiResponse) flow \<times> call list" where
  "dataset_stage e request sessionId tr =
     (if use_dataset request = Some True \<or> isCustomerSupportQuery (req_message request) then
        (case apiService_sendMessage e (dataset_request request sessionId) tr of
           (Inr datasetResponse, tr') \<Rightarrow>
             (case data datasetResponse of
                Some d \<Rightarrow>
                  if status datasetResponse = Success then (Return (dataset_result e sessionId d), tr')
                  else (Fallthrough, tr')
              | None \<Rightarrow> (Fallthrough, tr'))
         | (Inl x, tr') \<Rightarrow> (Fallthrough, tr'))
      else (Fallthrough, tr))"

text \<open>
  Lines 82 to 114: the generative backend as the final fallback. No \<open>try\<close> of its own: a
  throw goes to the outer \<open>catch\<close>, and reading \<open>geminiResponse.status\<close> at line 88
  throws when the reply is \<open>null\<close>.
\<close>

definition gemini_final ::
  "env \<Rightarrow> HybridChatRequest \<Rightarrow> string \<Rightarrow> call list \<Rightarrow>
     (thrown + HybridChatResponse ApiResponse) \<times> call list" where
  "gemini_final e request sessionId tr =
     (case geminiApiService_sendMessage e (gemini_request request sessionId) tr of
        (Inr (Some geminiResponse), tr') \<Rightarrow>
          (case data geminiResponse of
             Some d \<Rightarrow>
               if status geminiResponse = Success then (Inr (gemini_result e sessionId d), tr')
               else (Inr (guidance_result e sessionId), tr')
           | None \<Rightarrow> (Inr (guidance_result e sessionId), tr'))
      | (Inr None, tr') \<Rightarrow> (Inl (null_read e), tr')
      | (Inl x, tr') \<Rightarrow> (Inl x, tr'))"

text \<open>The body of the outer \<open>try\<close>.\<close>

definition sendMessage_try ::
  "env \<Rightarrow> HybridChatRequest \<Rightarrow> string \<Rightarrow>
     (thrown + HybridChatResponse ApiResponse) \<times> call list" where
  "sendMessage_try e request sessionId =
     (case gemini_first e request sessionId [] of
        (Return r, tr) \<Rightarrow> (Inr r, tr)
      | (Fallthrough, tr) \<Rightarrow>
          (case dataset_stage e request sessionId tr of
             (Return r, tr') \<Rightarrow> (Inr r, tr')
           | (Fallthrough, tr') \<Rightarrow> gemini_final e request sessionId tr'))"

text \<open>
  \<open>sendMessage\<close> with the backend calls it issued, in order. The outer \<open>catch\<close> turns a
  throw into an error envelope.
\<close>

definition sendMessage ::
  "env \<Rightarrow> HybridChatRequest \<Rightarrow> HybridChatResponse ApiResponse \<times> call list" where
  "sendMessage e request =
     (let sessionId = or_else (req_session_id request) (random_token e)
      in case sendMessage_try e request sessionId of
           (Inr r, tr) \<Rightarrow> (r, tr)
         | (Inl x, tr) \<Rightarrow> (error_result e x, tr))"

text \<open>
  \<open>healthCheck\<close>: both probes are started and each is captured on its own by
  \<open>Promise.allSettled\<close>.
\<close>

definition allSettled :: "thrown + 'a \<Rightarrow> 'a settled" where
  "allSettled p = (case p of Inl x \<Rightarrow> Rejected x | Inr v \<Rightarrow> Fulfilled v)"

definition probe_ok :: "(json ApiResponse) settled \<Rightarrow> bool" where
  "probe_ok h = (case h of Fulfilled v \<Rightarrow> status v = Success | Rejected x \<Rightarrow> False)"

definition healthCheck :: "env \<Rightarrow> HealthData ApiResponse" where
  "healthCheck e =
     (let datasetHealth = allSettled (apiService_healthCheck e);
          geminiHealth = allSettled (geminiApiService_healthCheck e);
          datasetStatus = probe_ok datasetHealth;
          geminiStatus = probe_ok geminiHealth
      in \<lparr>status = (if datasetStatus \<or> geminiStatus then Success else Error),
          message =
            Some (if datasetStatus \<and> geminiStatus then ''Both services available''
                  else if datasetStatus then ''Dataset backend only''
                  else if geminiStatus then ''Gemini API only''
                  else ''No services available''),
          data = Some \<lparr>dataset_backend = datasetStatus, gemini_api = geminiStatus,
                       hybrid_mode = (datasetStatus \<and> geminiStatus)\<rparr>,
          timestamp = Some (isoNow e)\<rparr>)"

section \<open>Sample environments and requests\<close>

definition failed_fetch :: thrown where
  "failed_fetch = JsError ''TypeError'' ''Failed to fetch''"

definition sample_reply :: ChatResponse where
  "sample_reply =
     \<lparr>ds_confidence = Some (9 / 10), ds_response = ''Refunds take 5 days.'',
      ds_session_id = ''s1'', ds_model_type = ''enhanced'', ds_response_time = 1 / 100,
      ds_timestamp = ''2024-01-01T00:00:00.000Z''\<rparr>"

definition sample_answer :: "GeminiChatResponse ApiResponse" where
  "sample_answer =
     \<lparr>status = Success, message = None,
      data = Some \<lparr>gm_response = ''Hello!'', gm_res_session_id = ''s1'',
                   gm_response_time = 1 / 2, gm_timestamp = ''2024-01-01T00:00:00.000Z''\<rparr>,
      timestamp = Some ''2024-01-01T00:00:00.000Z''\<rparr>"

text \<open>Both backends unreachable.\<close>

definition net_down :: env where
  "net_down =
     \<lparr>random_text = ''0.4fzyok3x9q'',
      null_read_text = ''Cannot read properties of null (reading 'status')'',
      startTime = 1000, returnTime = 1250,
      isoNow = ''2024-01-01T00:00:01.250Z'',
      gemini_net = (\<lambda>n q. Rejected failed_fetch),
      dataset_net = (\<lambda>q. FetchRejects failed_fetch),
      gemini_health_net = Rejected failed_fetch,
      dataset_health_net = FetchRejects failed_fetch\<rparr>"

text \<open>Both backends healthy.\<close>

definition net_up :: env where
  "net_up =
     \<lparr>random_text = ''0.4fzyok3x9q'',
      null_read_text = ''Cannot read properties of null (reading 'status')'',
      startTime = 1000, returnTime = 1250,
      isoNow = ''2024-01-01T00:00:01.250Z'',
      gemini_net = (\<lambda>n q. Fulfilled (Some sample_answer)),
      dataset_net = (\<lambda>q. FetchResponds 200 ''OK'' (Inr (Some sample_reply))),
      gemini_health_net =
        Fulfilled (Some \<lparr>status = Success, message = None, data = Some ''{ok: true}'',
                         timestamp = Some ''2024-01-01T00:00:01.250Z''\<rparr>),
      dataset_health_net = FetchResponds 200 ''OK'' (Inr (Some ''{status: healthy}''))\<rparr>"

text \<open>The relay answers every POST with the body \<open>null\<close>; the dataset backend is healthy.\<close>

definition net_null :: env where
  "net_null = net_up\<lparr>gemini_net := (\<lambda>n q. Fulfilled None)\<rparr>"

text \<open>Both backends healthy, the random draw 0.5, whose base-36 text is \<open>0.i\<close>.\<close>

definition net_half :: env where
  "net_half = net_up\<lparr>random_text := ''0.i''\<rparr>"

definition refund_request :: HybridChatRequest where
  "refund_request =
     \<lparr>req_message = ''I need a refund'', req_session_id = Some ''s1'',
      use_dataset = Some True, req_model_type = None\<rparr>"

definition joke_request :: HybridChatRequest where
  "joke_request =
     \<lparr>req_message = ''tell me a joke'', req_session_id = None,
      use_dataset = Some False, req_model_type = None\<rparr>"

text \<open>
  Failed attempts, read off the replies of the network. A generative attempt fails by a
  throw of \<open>fetch\<close> or \<open>res.json()\<close>, or by an in-band envelope that is not a success with
  data (\<open>gemini_fails\<close>); a \<open>null\<close> body is a malformed reply, and the attempt is unusable
  too (\<open>gemini_unusable\<close>).
\<close>

definition gemini_fails :: "(GeminiChatResponse ApiResponse option) settled \<Rightarrow> bool" where
  "gemini_fails r =
     (case r of
        Rejected x \<Rightarrow> True
      | Fulfilled None \<Rightarrow> False
      | Fulfilled (Some j) \<Rightarrow> status j = Error \<or> data j = None)"

definition gemini_unusable :: "(GeminiChatResponse ApiResponse option) settled \<Rightarrow> bool" where
  "gemini_unusable r =
     (case r of
        Rejected x \<Rightarrow> True
      | Fulfilled None \<Rightarrow> True
      | Fulfilled (Some j) \<Rightarrow> status j = Error \<or> data j = None)"

definition dataset_fails :: "ChatResponse http_result \<Rightarrow> bool" where
  "dataset_fails r =
     (case r of
        FetchRejects x \<Rightarrow> True
      | FetchResponds st stText body \<Rightarrow>
          (case body of
             Inl x \<Rightarrow> True
           | Inr d \<Rightarrow> st < 200 \<or> 299 < st \<or> d = None))"

text \<open>
  A probe of the dataset backend succeeds when \<open>GET /health\<close> answers with a 2xx status
  and a body that parses; a probe of the generative backend succeeds when the relay
  answers with status success.
\<close>

definition dataset_probe_succeeds :: "json http_result \<Rightarrow> bool" where
  "dataset_probe_succeeds r =
     (case r of
        FetchRejects x \<Rightarrow> False
      | FetchResponds st stText body \<Rightarrow>
          (case body of Inl x \<Rightarrow> False | Inr d \<Rightarrow> 200 \<le> st \<and> st \<le> 299))"

definition gemini_probe_succeeds :: "(json ApiResponse option) settled \<Rightarrow> bool" where
  "gemini_probe_succeeds r =
     (case r of
        Rejected x \<Rightarrow> False
      | Fulfilled None \<Rightarrow> False
      | Fulfilled (Some j) \<Rightarrow> status j = Success)"

text \<open>Both backends healthy, the dataset reply without a confidence score.\<close>

definition net_no_confidence :: env where
  "net_no_confidence =
     net_up\<lparr>dataset_net :=
       (\<lambda>q. FetchResponds 200 ''OK'' (Inr (Some (sample_reply\<lparr>ds_confidence := None\<rparr>))))\<rparr>"

section \<open>Substring search\<close>

text \<open>
  \<open>str_includes\<close> is the usual notion: the key stands between some prefix and some suffix.
\<close>

lemma startsWith_iff: "startsWith s k \<longleftrightarrow> (\<exists>q. s = k @ q)"
  by (induction s k rule: startsWith.induct) auto

lemma str_includes_iff: "str_includes s k \<longleftrightarrow> (\<exists>p q. s = p @ k @ q)"
proof (induction s)
  case Nil
  show ?case by auto
next
  case (Cons c s)
  have step: "(\<exists>p q. c # s = p @ k @ q) \<longleftrightarrow> (\<exists>q. c # s = k @ q) \<or> (\<exists>p q. s = p @ k @ q)"
  proof
    assume "\<exists>p q. c # s = p @ k @ q"
    then obtain p q where pq: "c # s = p @ k @ q" by blast
    show "(\<exists>q. c # s = k @ q) \<or> (\<exists>p q. s = p @ k @ q)"
    proof (cases p)
      case Nil
      with pq show ?thesis by auto
    next
      case (Cons a p')
      with pq have "s = p' @ k @ q" by simp
      then show ?thesis by blast
    qed
  next
    assume "(\<exists>q. c # s = k @ q) \<or> (\<exists>p q. s = p @ k @ q)"
    then show "\<exists>p q. c # s = p @ k @ q"
    proof
      assume "\<exists>q. c # s = k @ q"
      then obtain q where "c # s = [] @ k @ q" by auto
      then show ?thesis by blast
    next
      assume "\<exists>p q. s = p @ k @ q"
      then obtain p q where "s = p @ k @ q" by blast
      then have "c # s = (c # p) @ k @ q" by simp
      then show ?thesis by blast
    qed
  qed
  have "str_includes (c # s) k \<longleftrightarrow> startsWith (c # s) k \<or> str_includes s k"
    by (rule str_includes.simps(2))
  also have "\<dots> \<longleftrightarrow> (\<exists>q. c # s = k @ q) \<or> (\<exists>p q. s = p @ k @ q)"
    unfolding startsWith_iff Cons.IH ..
  also have "\<dots> \<longleftrightarrow> (\<exists>p q. c # s = p @ k @ q)"
    by (rule step [symmetric])
  finally show ?case .
qed

section \<open>What the dataset client returns\<close>

text \<open>
  \<open>makeRequest\<close> resolves only on a 2xx response whose body parses; everything else
  throws.
\<close>

lemma makeRequest_rejects: "makeRequest s (FetchRejects x) = Inl (makeRequest_catch x)"
  by (simp add: makeRequest_def makeRequest_try_def)

lemma makeRequest_ok:
  "response_ok st \<Longrightarrow> makeRequest s (FetchResponds st stText (Inr d)) =
     Inr \<lparr>status = Success, message = None, data = d, timestamp = Some s\<rparr>"
  by (simp add: makeRequest_def makeRequest_try_def)

lemma makeRequest_not_ok:
  "\<not> response_ok st \<Longrightarrow> \<exists>x. makeRequest s (FetchResponds st stText body) = Inl x"
  by (simp add: makeRequest_def makeRequest_try_def)

lemma makeRequest_bad_body:
  "response_ok st \<Longrightarrow> makeRequest s (FetchResponds st stText (Inl x)) = Inl (makeRequest_catch x)"
  by (simp add: makeRequest_def makeRequest_try_def)

lemma makeRequest_Inr:
  assumes "makeRequest s f = Inr r"
  shows "\<exists>st stText. f = FetchResponds st stText (Inr (data r)) \<and> response_ok st \<and> status r = Success"
proof (cases f)
  case (FetchRejects x)
  with assms show ?thesis by (simp add: makeRequest_rejects)
next
  case (FetchResponds st stText body)
  show ?thesis
  proof (cases "response_ok st")
    case False
    from makeRequest_not_ok [OF False] obtain x
      where "makeRequest s (FetchResponds st stText body) = Inl x" by blast
    with assms FetchResponds show ?thesis by simp
  next
    case True
    show ?thesis
    proof (cases body)
      case (Inl x)
      with assms FetchResponds True show ?thesis
        by (simp add: makeRequest_bad_body)
    next
      case (Inr d)
      with assms FetchResponds True show ?thesis
        by (auto simp: makeRequest_ok)
    qed
  qed
qed

lemma dataset_fails_data:
  "dataset_fails f \<Longrightarrow> makeRequest s f = Inr r \<Longrightarrow> data r = None"
  by (drule makeRequest_Inr) (auto simp: dataset_fails_def response_ok_def)

section \<open>The stages of \<open>sendMessage\<close>\<close>

text \<open>
  The generative client never throws: each call adds itself to the calls issued and
  yields the parsed body (\<open>null\<close> included) or an error envelope.
\<close>

lemma gemini_fails_unusable: "gemini_fails x \<Longrightarrow> gemini_unusable x"
  by (simp add: gemini_fails_def gemini_unusable_def split: settled.splits option.splits)

lemma gemini_send_total:
  "\<exists>j. geminiApiService_sendMessage e q tr = (Inr j, tr @ [GeminiSend q])"
  by (simp add: geminiApiService_sendMessage_def split: settled.split)

lemma gemini_send_fails:
  assumes "gemini_fails (gemini_net e (length (filter is_gemini_call tr)) q)"
  shows "\<exists>j. geminiApiService_sendMessage e q tr = (Inr (Some j), tr @ [GeminiSend q])
             \<and> (status j = Error \<or> data j = None)"
  using assms
  by (auto simp: geminiApiService_sendMessage_def gemini_fails_def
      split: settled.splits option.splits)

lemma gemini_send_unusable:
  assumes "gemini_unusable (gemini_net e (length (filter is_gemini_call tr)) q)"
  shows "\<exists>j. geminiApiService_sendMessage e q tr = (Inr j, tr @ [GeminiSend q])
             \<and> (case j of None \<Rightarrow> True | Some v \<Rightarrow> status v = Error \<or> data v = None)"
  using assms
  by (auto simp: geminiApiService_sendMessage_def gemini_unusable_def
      split: settled.splits option.splits)

lemma gemini_send_null:
  "(geminiApiService_sendMessage e q tr = (Inr None, tr'))
     = (gemini_net e (length (filter is_gemini_call tr)) q = Fulfilled None
        \<and> tr' = tr @ [GeminiSend q])"
  by (auto simp: geminiApiService_sendMessage_def split: settled.splits)

text \<open>
  For each stage: the calls it leaves behind, how it can end, and how it ends when the
  backend it asks has failed.
\<close>

lemma gemini_first_trace:
  "snd (gemini_first e r sid tr) =
     (if use_dataset r = Some True \<and> isCustomerSupportQuery (req_message r) then tr
      else tr @ [GeminiSend (gemini_request r sid)])"
proof -
  obtain j where "geminiApiService_sendMessage e (gemini_request r sid) tr
    = (Inr j, tr @ [GeminiSend (gemini_request r sid)])"
    using gemini_send_total by blast
  then show ?thesis
    by (simp add: gemini_first_def split: option.split)
qed

lemma gemini_first_fails:
  assumes "gemini_unusable (gemini_net e (length (filter is_gemini_call tr)) (gemini_request r sid))"
  shows "fst (gemini_first e r sid tr) = Fallthrough"
proof -
  obtain j where "geminiApiService_sendMessage e (gemini_request r sid) tr
    = (Inr j, tr @ [GeminiSend (gemini_request r sid)])"
    "case j of None \<Rightarrow> True | Some v \<Rightarrow> status v = Error \<or> data v = None"
    using gemini_send_unusable [OF assms] by blast
  then show ?thesis
    by (auto simp: gemini_first_def split: option.split)
qed

lemma gemini_first_result:
  "fst (gemini_first e r sid tr) = Fallthrough
   \<or> (\<exists>d. fst (gemini_first e r sid tr) = Return (gemini_result e sid d)
          \<and> \<not> (use_dataset r = Some True \<and> isCustomerSupportQuery (req_message r))
          \<and> \<not> gemini_unusable
                (gemini_net e (length (filter is_gemini_call tr)) (gemini_request r sid)))"
proof (cases "gemini_unusable
    (gemini_net e (length (filter is_gemini_call tr)) (gemini_request r sid))")
  case True
  then show ?thesis by (simp add: gemini_first_fails)
next
  case False
  obtain j where "geminiApiService_sendMessage e (gemini_request r sid) tr
    = (Inr j, tr @ [GeminiSend (gemini_request r sid)])"
    using gemini_send_total by blast
  with False show ?thesis
    by (auto simp: gemini_first_def split: option.split)
qed

lemma dataset_stage_trace:
  "snd (dataset_stage e r sid tr) =
     (if use_dataset r = Some True \<or> isCustomerSupportQuery (req_message r)
      then tr @ [DatasetSend (dataset_request r sid)] else tr)"
  by (simp add: dataset_stage_def apiService_sendMessage_def split: sum.split option.split)

lemma dataset_stage_result:
  "fst (dataset_stage e r sid tr) = Fallthrough
   \<or> (\<exists>d st stText. fst (dataset_stage e r sid tr) = Return (dataset_result e sid d)
          \<and> (use_dataset r = Some True \<or> isCustomerSupportQuery (req_message r))
          \<and> dataset_net e (dataset_request r sid) = FetchResponds st stText (Inr (Some d))
          \<and> response_ok st)"
proof (cases "makeRequest (isoNow e) (dataset_net e (dataset_request r sid))")
  case (Inl x)
  then show ?thesis
    by (simp add: dataset_stage_def apiService_sendMessage_def)
next
  case (Inr v)
  from makeRequest_Inr [OF Inr] obtain st stText where
    f: "dataset_net e (dataset_request r sid) = FetchResponds st stText (Inr (data v))"
    and s: "status v = Success" and ok: "response_ok st" by blast
  show ?thesis
  proof (cases "data v")
    case None
    with Inr show ?thesis
      by (simp add: dataset_stage_def apiService_sendMessage_def)
  next
    case (Some d)
    with Inr f s ok show ?thesis
      by (auto simp: dataset_stage_def apiService_sendMessage_def)
  qed
qed

lemma dataset_stage_fails:
  assumes "dataset_fails (dataset_net e (dataset_request r sid))"
  shows "fst (dataset_stage e r sid tr) = Fallthrough"
proof (cases "makeRequest (isoNow e) (dataset_net e (dataset_request r sid))")
  case (Inl x)
  then show ?thesis
    by (simp add: dataset_stage_def apiService_sendMessage_def)
next
  case (Inr v)
  with dataset_fails_data [OF assms Inr] show ?thesis
    by (simp add: dataset_stage_def apiService_sendMessage_def)
qed

lemma gemini_final_trace:
  "snd (gemini_final e r sid tr) = tr @ [GeminiSend (gemini_request r sid)]"
proof -
  obtain j where "geminiApiService_sendMessage e (gemini_request r sid) tr
    = (Inr j, tr @ [GeminiSend (gemini_request r sid)])"
    using gemini_send_total by blast
  then show ?thesis
    by (simp add: gemini_final_def split: option.split)
qed

lemma gemini_final_result:
  "fst (gemini_final e r sid tr) = Inr (guidance_result e sid)
   \<or> (\<exists>d. fst (gemini_final e r sid tr) = Inr (gemini_result e sid d))
   \<or> (fst (gemini_final e r sid tr) = Inl (null_read e)
       \<and> gemini_net e (length (filter is_gemini_call tr)) (gemini_request r sid) = Fulfilled None)"
proof -
  obtain j where j: "geminiApiService_sendMessage e (gemini_request r sid) tr
    = (Inr j, tr @ [GeminiSend (gemini_request r sid)])"
    using gemini_send_total by blast
  show ?thesis
  proof (cases j)
    case None
    with j have "gemini_net e (length (filter is_gemini_call tr)) (gemini_request r sid)
        = Fulfilled None"
      by (simp add: gemini_send_null)
    with j None show ?thesis
      by (simp add: gemini_final_def)
  next
    case (Some v)
    with j show ?thesis
      by (auto simp: gemini_final_def split: option.split)
  qed
qed

lemma gemini_final_fails:
  assumes "gemini_fails (gemini_net e (length (filter is_gemini_call tr)) (gemini_request r sid))"
  shows "fst (gemini_final e r sid tr) = Inr (guidance_result e sid)"
proof -
  obtain j where "geminiApiService_sendMessage e (gemini_request r sid) tr
    = (Inr (Some j), tr @ [GeminiSend (gemini_request r sid)])" "status j = Error \<or> data j = None"
    using gemini_send_fails [OF assms] by blast
  then show ?thesis
    by (auto simp: gemini_final_def split: option.split)
qed

text \<open>
  The five ways the body of the outer \<open>try\<close> ends, each with the calls issued. It
  throws, and the outer \<open>catch\<close> is entered, only when the reply to the final
  generative call is the body \<open>null\<close>.
\<close>

lemma sendMessage_try_cases:
  fixes e r sid
  defines "pre \<equiv> (if use_dataset r = Some True \<and> isCustomerSupportQuery (req_message r)
                   then [] else [GeminiSend (gemini_request r sid)])"
  defines "mid \<equiv> (if use_dataset r = Some True \<or> isCustomerSupportQuery (req_message r)
                   then [DatasetSend (dataset_request r sid)] else [])"
  shows
  "(\<exists>d. sendMessage_try e r sid = (Inr (gemini_result e sid d), [GeminiSend (gemini_request r sid)])
        \<and> \<not> (use_dataset r = Some True \<and> isCustomerSupportQuery (req_message r))
        \<and> \<not> gemini_unusable (gemini_net e 0 (gemini_request r sid)))
   \<or> (\<exists>d st stText.
         sendMessage_try e r sid = (Inr (dataset_result e sid d), pre @ [DatasetSend (dataset_request r sid)])
         \<and> (use_dataset r = Some True \<or> isCustomerSupportQuery (req_message r))
         \<and> dataset_net e (dataset_request r sid) = FetchResponds st stText (Inr (Some d))
         \<and> response_ok st)
   \<or> (\<exists>d. sendMessage_try e r sid =
         (Inr (gemini_result e sid d), pre @ mid @ [GeminiSend (gemini_request r sid)]))
   \<or> sendMessage_try e r sid =
         (Inr (guidance_result e sid), pre @ mid @ [GeminiSend (gemini_request r sid)])
   \<or> (sendMessage_try e r sid =
         (Inl (null_read e), pre @ mid @ [GeminiSend (gemini_request r sid)])
       \<and> gemini_net e (length (filter is_gemini_call (pre @ mid))) (gemini_request r sid)
           = Fulfilled None)"
proof -
  let ?g1 = "gemini_first e r sid []"
  let ?ds = "dataset_stage e r sid (snd ?g1)"
  let ?gf = "gemini_final e r sid (snd ?ds)"
  have t1: "snd ?g1 = pre"
    by (simp add: gemini_first_trace pre_def)
  have t2: "snd ?ds = pre @ mid"
    by (simp add: dataset_stage_trace t1 mid_def)
  have t3: "snd ?gf = pre @ mid @ [GeminiSend (gemini_request r sid)]"
    by (simp add: gemini_final_trace t2)
  consider (first) d where "fst ?g1 = Return (gemini_result e sid d)"
      "\<not> (use_dataset r = Some True \<and> isCustomerSupportQuery (req_message r))"
      "\<not> gemini_unusable (gemini_net e 0 (gemini_request r sid))"
    | (fall) "fst ?g1 = Fallthrough"
    using gemini_first_result [of e r sid "[]"] by auto
  then show ?thesis
  proof cases
    case first
    then have "sendMessage_try e r sid = (Inr (gemini_result e sid d), pre)"
      by (simp add: sendMessage_try_def case_prod_beta t1)
    with first(2,3) show ?thesis by (auto simp: pre_def)
  next
    case fall
    consider (ds) d st stText where "fst ?ds = Return (dataset_result e sid d)"
        "use_dataset r = Some True \<or> isCustomerSupportQuery (req_message r)"
        "dataset_net e (dataset_request r sid) = FetchResponds st stText (Inr (Some d))"
        "response_ok st"
      | (fall2) "fst ?ds = Fallthrough"
      using dataset_stage_result [of e r sid "snd ?g1"] by blast
    then show ?thesis
    proof cases
      case ds
      then have "sendMessage_try e r sid = (Inr (dataset_result e sid d), pre @ mid)"
        using fall by (simp add: sendMessage_try_def case_prod_beta t2)
      with ds(2,3,4) show ?thesis by (auto simp: mid_def)
    next
      case fall2
      have eq: "sendMessage_try e r sid = (fst ?gf, pre @ mid @ [GeminiSend (gemini_request r sid)])"
        using fall fall2 t3 by (simp add: sendMessage_try_def case_prod_beta prod_eq_iff)
      from gemini_final_result [of e r sid "snd ?ds"] eq t2 show ?thesis by auto
    qed
  qed
qed

lemma sendMessage_of_try:
  "sendMessage_try e r (or_else (req_session_id r) (random_token e)) = (Inr v, tr)
   \<Longrightarrow> sendMessage e r = (v, tr)"
  by (simp add: sendMessage_def)

lemma sendMessage_of_throw:
  "sendMessage_try e r (or_else (req_session_id r) (random_token e)) = (Inl x, tr)
   \<Longrightarrow> sendMessage e r = (error_result e x, tr)"
  by (simp add: sendMessage_def)

lemma sendMessage_cases:
  fixes e r
  defines "sid \<equiv> or_else (req_session_id r) (random_token e)"
  defines "pre \<equiv> (if use_dataset r = Some True \<and> isCustomerSupportQuery (req_message r)
                   then [] else [GeminiSend (gemini_request r sid)])"
  defines "mid \<equiv> (if use_dataset r = Some True \<or> isCustomerSupportQuery (req_message r)
                   then [DatasetSend (dataset_request r sid)] else [])"
  shows
  "(\<exists>d. sendMessage e r = (gemini_result e sid d, [GeminiSend (gemini_request r sid)])
        \<and> \<not> (use_dataset r = Some True \<and> isCustomerSupportQuery (req_message r))
        \<and> \<not> gemini_unusable (gemini_net e 0 (gemini_request r sid)))
   \<or> (\<exists>d st stText.
         sendMessage e r = (dataset_result e sid d, pre @ [DatasetSend (dataset_request r sid)])
         \<and> (use_dataset r = Some True \<or> isCustomerSupportQuery (req_message r))
         \<and> dataset_net e (dataset_request r sid) = FetchResponds st stText (Inr (Some d))
         \<and> response_ok st)
   \<or> (\<exists>d. sendMessage e r =
         (gemini_result e sid d, pre @ mid @ [GeminiSend (gemini_request r sid)]))
   \<or> sendMessage e r =
         (guidance_result e sid, pre @ mid @ [GeminiSend (gemini_request r sid)])
   \<or> (sendMessage e r =
         (error_result e (null_read e), pre @ mid @ [GeminiSend (gemini_request r sid)])
       \<and> gemini_net e (length (filter is_gemini_call (pre @ mid))) (gemini_request r sid)
           = Fulfilled None)"
  using sendMessage_try_cases [of e r sid]
  unfolding sid_def pre_def mid_def
  by (elim disjE exE conjE) (auto dest!: sendMessage_of_try sendMessage_of_throw)

lemma result_simps:
  "status (gemini_result e sid g) = Success"
  "status (dataset_result e sid b) = Success"
  "status (guidance_result e sid) = Success"
  "data (gemini_result e sid g) =
     Some \<lparr>response = gm_response g, source = Gemini, session_id = sid,
           response_time = elapsed e, res_timestamp = isoNow e, confidence = None\<rparr>"
  "data (dataset_result e sid b) =
     Some \<lparr>response = ds_response b, source = Dataset, session_id = sid,
           response_time = elapsed e, res_timestamp = isoNow e, confidence = ds_confidence b\<rparr>"
  "data (guidance_result e sid) =
     Some \<lparr>response = guidance_text, source = Gemini, session_id = sid,
           response_time = elapsed e, res_timestamp = isoNow e, confidence = None\<rparr>"
  "status (error_result e x) = Error"
  "data (error_result e x) = None"
  by (simp_all add: gemini_result_def dataset_result_def guidance_result_def error_result_def)

lemma sendMessage_try_all_fail:
  assumes g: "\<And>n q. gemini_fails (gemini_net e n q)"
    and d: "\<And>q. dataset_fails (dataset_net e q)"
  shows "fst (sendMessage_try e r sid) = Inr (guidance_result e sid)"
proof -
  let ?g1 = "gemini_first e r sid []"
  let ?ds = "dataset_stage e r sid (snd ?g1)"
  have "fst ?g1 = Fallthrough"
  proof (cases "use_dataset r = Some True \<and> isCustomerSupportQuery (req_message r)")
    case True
    then show ?thesis by (simp add: gemini_first_def)
  next
    case False
    show ?thesis by (rule gemini_first_fails) (rule gemini_fails_unusable, rule g)
  qed
  moreover have "fst ?ds = Fallthrough"
  proof (cases "use_dataset r = Some True \<or> isCustomerSupportQuery (req_message r)")
    case True
    show ?thesis by (rule dataset_stage_fails) (rule d)
  next
    case False
    then show ?thesis by (simp add: dataset_stage_def)
  qed
  moreover have "fst (gemini_final e r sid (snd ?ds)) = Inr (guidance_result e sid)"
    by (rule gemini_final_fails) (rule g)
  ultimately show ?thesis
    by (simp add: sendMessage_try_def case_prod_beta)
qed

text \<open>
  The stages read the message, the preference and the model type of the request, never
  its session id.
\<close>

lemma stage_session:
  "gemini_first e (r\<lparr>req_session_id := x\<rparr>) sid tr = gemini_first e r sid tr"
  "dataset_stage e (r\<lparr>req_session_id := x\<rparr>) sid tr = dataset_stage e r sid tr"
  "gemini_final e (r\<lparr>req_session_id := x\<rparr>) sid tr = gemini_final e r sid tr"
  by (simp_all add: gemini_first_def dataset_stage_def gemini_final_def
      gemini_request_def dataset_request_def)

lemma sendMessage_try_session:
  "sendMessage_try e (r\<lparr>req_session_id := x\<rparr>) sid = sendMessage_try e r sid"
  unfolding sendMessage_try_def stage_session ..

section \<open>The health probes\<close>

lemma allSettled_dataset_probe:
  "probe_ok (allSettled (apiService_healthCheck e)) = dataset_probe_succeeds (dataset_health_net e)"
proof (cases "dataset_health_net e")
  case (FetchRejects x)
  then show ?thesis
    by (simp add: apiService_healthCheck_def makeRequest_rejects allSettled_def probe_ok_def
        dataset_probe_succeeds_def)
next
  case (FetchResponds st stText body)
  show ?thesis
  proof (cases "response_ok st")
    case False
    from makeRequest_not_ok [OF False] obtain x
      where "makeRequest (isoNow e) (FetchResponds st stText body) = Inl x" by blast
    with False FetchResponds show ?thesis
      by (simp add: apiService_healthCheck_def allSettled_def probe_ok_def
          dataset_probe_succeeds_def response_ok_def split: sum.split)
  next
    case True
    with FetchResponds show ?thesis
      by (cases body)
        (simp_all add: apiService_healthCheck_def allSettled_def probe_ok_def
          dataset_probe_succeeds_def makeRequest_bad_body makeRequest_ok response_ok_def)
  qed
qed

lemma allSettled_gemini_probe:
  "probe_ok (allSettled (geminiApiService_healthCheck e)) = gemini_probe_succeeds (gemini_health_net e)"
  by (simp add: geminiApiService_healthCheck_def geminiApiService_testConnection_def
      allSettled_def probe_ok_def gemini_probe_succeeds_def Let_def
      split: settled.split option.split)

section \<open>Sample runs\<close>

lemma refund_is_support: "isCustomerSupportQuery ''I need a refund''"
  by code_simp

lemma joke_not_support: "\<not> isCustomerSupportQuery ''tell me a joke''"
  by code_simp

lemma lower_refund: "toLowerCase ''I need a REFUND'' = ''i need a '' @ ''refund'' @ []"
  by code_simp

lemma guidance_mentions_key:
  "str_includes guidance_text ''check that your Gemini API key is properly configured''"
  by code_simp

lemmas stage_unfold = Let_def sendMessage_def sendMessage_try_def gemini_first_def dataset_stage_def
  gemini_final_def geminiApiService_sendMessage_def apiService_sendMessage_def

lemma response_ok_200: "response_ok 200"
  by (simp add: response_ok_def)

lemma token_k3x9q: "substring ''0.4fzyok3x9q'' 7 = ''k3x9q''"
  by (simp add: substring_def)

lemma joke_down_eval:
  "sendMessage net_down joke_request =
     (guidance_result net_down ''k3x9q'',
      [GeminiSend (gemini_request joke_request ''k3x9q''),
       GeminiSend (gemini_request joke_request ''k3x9q'')])"
  by (simp add: stage_unfold joke_request_def net_down_def joke_not_support or_else_def
      guidance_result_def gemini_request_def random_token_def token_k3x9q)

lemma joke_null_eval:
  "sendMessage net_null joke_request =
     (error_result net_null (null_read net_null),
      [GeminiSend (gemini_request joke_request ''k3x9q''),
       GeminiSend (gemini_request joke_request ''k3x9q'')])"
  by (simp add: stage_unfold joke_request_def net_null_def net_up_def joke_not_support or_else_def
      error_result_def null_read_def gemini_request_def random_token_def token_k3x9q)

lemma refund_up_eval:
  "sendMessage net_up refund_request =
     (dataset_result net_up ''s1'' sample_reply, [DatasetSend (dataset_request refund_request ''s1'')])"
  by (simp add: stage_unfold refund_request_def net_up_def refund_is_support or_else_def
      makeRequest_ok response_ok_200 dataset_request_def)

lemma refund_basic_eval:
  "snd (sendMessage net_up (refund_request\<lparr>req_model_type := Some Basic\<rparr>)) =
     [DatasetSend (dataset_request (refund_request\<lparr>req_model_type := Some Basic\<rparr>) ''s1'')]"
  by (simp add: stage_unfold refund_request_def net_up_def refund_is_support or_else_def
      makeRequest_ok response_ok_200 dataset_request_def)

section \<open>The claims\<close>

subsection \<open>C1: the other backend after a failure\<close>




subsection \<open>C2: the number of backend calls\<close>

text \<open>
  C2 says that no call of \<open>sendMessage\<close> issues more than two backend calls. It issues
  three when the dataset is preferred, the message has no support keyword and every
  attempt fails: generative, dataset, generative again.
\<close>

theorem three_calls:
  "snd (sendMessage net_down (joke_request\<lparr>use_dataset := Some True\<rparr>)) =
     [GeminiSend (gemini_request joke_request ''k3x9q''),
      DatasetSend (dataset_request joke_request ''k3x9q''),
      GeminiSend (gemini_request joke_request ''k3x9q'')]
   \<and> \<not> length (snd (sendMessage net_down (joke_request\<lparr>use_dataset := Some True\<rparr>))) \<le> 2"
  by (simp add: stage_unfold joke_request_def net_down_def joke_not_support or_else_def
      makeRequest_rejects gemini_request_def dataset_request_def random_token_def token_k3x9q)

text \<open>
  C2 as amended: a call of \<open>sendMessage\<close> issues at most three backend calls, the
  dataset backend at most once and the generative backend at most twice; it issues at
  most two when \<open>use_dataset\<close> is true and the message is a support query, and when
  \<open>use_dataset\<close> is not true and the message is not a support query.
\<close>

theorem calls_bounded:
  "length (snd (sendMessage e r)) \<le> 3
   \<and> length (filter is_dataset_call (snd (sendMessage e r))) \<le> 1
   \<and> length (filter is_gemini_call (snd (sendMessage e r))) \<le> 2
   \<and> ((use_dataset r = Some True) = isCustomerSupportQuery (req_message r)
        \<longrightarrow> length (snd (sendMessage e r)) \<le> 2)"
  using sendMessage_cases [of e r]
  by (elim disjE exE conjE) auto

theorem calls_bounded_witness:
  "length (snd (sendMessage net_down refund_request)) \<le> 2
   \<and> length (snd (sendMessage net_down (joke_request\<lparr>use_dataset := Some True\<rparr>))) \<le> 3"
  using calls_bounded [of net_down refund_request]
    calls_bounded [of net_down "joke_request\<lparr>use_dataset := Some True\<rparr>"]
  by (simp add: refund_request_def refund_is_support)

subsection \<open>C3: both backends failing\<close>

text \<open>
  C3: when every generative attempt fails by a throw or by an in-band envelope that is
  not a success with data, and every dataset attempt fails, the result has status
  success, source \<open>gemini\<close> and the guidance text about the API key. No throw leaves
  \<open>sendMessage\<close>: its result is always an envelope. Unavailability alone never gives
  status error: as long as no relay reply is the body \<open>null\<close> the status is success, and
  a result with status error is the one the outer \<open>catch\<close> builds from the \<open>TypeError\<close> of
  reading a \<open>null\<close> reply.
\<close>

theorem both_fail_guidance:
  "((\<forall>n q. gemini_fails (gemini_net e n q)) \<and> (\<forall>q. dataset_fails (dataset_net e q))
      \<longrightarrow> status (fst (sendMessage e r)) = Success
          \<and> (\<exists>d. data (fst (sendMessage e r)) = Some d \<and> source d = Gemini
                  \<and> response d = guidance_text
                  \<and> str_includes (response d)
                       ''check that your Gemini API key is properly configured''))
   \<and> ((\<forall>n q. gemini_net e n q \<noteq> Fulfilled None)
      \<longrightarrow> status (fst (sendMessage e r)) = Success)
   \<and> (status (fst (sendMessage e r)) = Error
      \<longrightarrow> fst (sendMessage e r) = error_result e (null_read e)
          \<and> (\<exists>n q. gemini_net e n q = Fulfilled None))"
proof (intro conjI impI)
  assume a: "(\<forall>n q. gemini_fails (gemini_net e n q)) \<and> (\<forall>q. dataset_fails (dataset_net e q))"
  let ?sid = "or_else (req_session_id r) (random_token e)"
  have "fst (sendMessage_try e r ?sid) = Inr (guidance_result e ?sid)"
    using a by (intro sendMessage_try_all_fail) auto
  then obtain tr where "sendMessage_try e r ?sid = (Inr (guidance_result e ?sid), tr)"
    by (cases "sendMessage_try e r ?sid") simp
  then have g: "fst (sendMessage e r) = guidance_result e ?sid"
    by (simp add: sendMessage_of_try)
  then show "status (fst (sendMessage e r)) = Success"
    by (simp add: result_simps)
  from g show "\<exists>d. data (fst (sendMessage e r)) = Some d \<and> source d = Gemini
                  \<and> response d = guidance_text
                  \<and> str_includes (response d)
                       ''check that your Gemini API key is properly configured''"
    by (simp add: result_simps guidance_mentions_key)
next
  assume "\<forall>n q. gemini_net e n q \<noteq> Fulfilled None"
  with sendMessage_cases [of e r] show "status (fst (sendMessage e r)) = Success"
    by (elim disjE exE conjE) (simp_all add: result_simps)
next
  assume "status (fst (sendMessage e r)) = Error"
  with sendMessage_cases [of e r]
  have "fst (sendMessage e r) = error_result e (null_read e)
          \<and> (\<exists>n q. gemini_net e n q = Fulfilled None)"
    by (elim disjE exE conjE) (auto simp: result_simps)
  then show "fst (sendMessage e r) = error_result e (null_read e)"
    and "\<exists>n q. gemini_net e n q = Fulfilled None" by blast+
qed

theorem both_fail_guidance_witness:
  "map_option response (data (fst (sendMessage net_down refund_request))) = Some guidance_text
   \<and> map_option source (data (fst (sendMessage net_down refund_request))) = Some Gemini
   \<and> status (fst (sendMessage net_down refund_request)) = Success
   \<and> status (fst (sendMessage net_up joke_request)) = Success
   \<and> fst (sendMessage net_null joke_request) = error_result net_null (null_read net_null)"
proof -
  have g: "\<forall>n q. gemini_fails (gemini_net net_down n q)"
    by (simp add: gemini_fails_def net_down_def)
  have d: "\<forall>q. dataset_fails (dataset_net net_down q)"
    by (simp add: dataset_fails_def net_down_def)
  have n: "\<forall>n q. gemini_net net_up n q \<noteq> Fulfilled None"
    by (simp add: net_up_def)
  have s: "status (fst (sendMessage net_null joke_request)) = Error"
    by (simp add: joke_null_eval result_simps)
  from both_fail_guidance [of net_down refund_request] both_fail_guidance [of net_up joke_request]
    both_fail_guidance [of net_null joke_request] g d n s
  show ?thesis by auto
qed

subsection \<open>C4: the backend attempted first\<close>

text \<open>
  C4: the first call issued goes to the dataset backend exactly when \<open>use_dataset\<close> is
  true and the message is a support query; otherwise it goes to the generative backend.
  In both cases a first call exists.
\<close>

theorem first_attempt:
  "(if use_dataset r = Some True \<and> isCustomerSupportQuery (req_message r)
    then \<exists>q rest. snd (sendMessage e r) = DatasetSend q # rest
    else \<exists>q rest. snd (sendMessage e r) = GeminiSend q # rest)"
  using sendMessage_cases [of e r]
  by (elim disjE exE conjE) auto

theorem first_attempt_witness:
  "(\<exists>q rest. snd (sendMessage net_up refund_request) = DatasetSend q # rest)
   \<and> (\<exists>q rest. snd (sendMessage net_up joke_request) = GeminiSend q # rest)"
  using first_attempt [of refund_request net_up] first_attempt [of joke_request net_up]
  by (simp add: refund_request_def joke_request_def refund_is_support joke_not_support)

subsection \<open>C5: confidence and source\<close>

text \<open>
  C5 says that a result carries a confidence exactly when its source is the dataset. The
  dataset reply may come without a confidence (\<open>confidence: number | undefined\<close>), and
  the result then has source \<open>dataset\<close> and no confidence.
\<close>

theorem missing_confidence:
  "map_option source (data (fst (sendMessage net_no_confidence refund_request))) = Some Dataset
   \<and> map_option confidence (data (fst (sendMessage net_no_confidence refund_request))) = Some None"
  by (simp add: stage_unfold refund_request_def net_no_confidence_def net_up_def refund_is_support
      or_else_def makeRequest_ok response_ok_200 dataset_request_def dataset_result_def)

text \<open>
  C5 as amended: a result with source \<open>gemini\<close> never carries a confidence, and a
  result with source \<open>dataset\<close> carries the confidence of the dataset reply to the
  call issued, which may be absent.
\<close>

theorem confidence_source:
  assumes "data (fst (sendMessage e r)) = Some d"
  shows "(case source d of
            Gemini \<Rightarrow> confidence d = None
          | Dataset \<Rightarrow>
              (\<exists>q st stText body.
                 DatasetSend q \<in> set (snd (sendMessage e r))
                 \<and> dataset_net e q = FetchResponds st stText (Inr (Some body))
                 \<and> confidence d = ds_confidence body))"
  using sendMessage_cases [of e r] assms
  by (elim disjE exE conjE) (auto simp: result_simps)

theorem confidence_source_witness:
  "data (fst (sendMessage net_up refund_request)) =
     Some \<lparr>response = ''Refunds take 5 days.'', source = Dataset, session_id = ''s1'',
           response_time = 1 / 4, res_timestamp = ''2024-01-01T00:00:01.250Z'',
           confidence = Some (9 / 10)\<rparr>
   \<and> (\<exists>q st stText body.
         DatasetSend q \<in> set (snd (sendMessage net_up refund_request))
         \<and> dataset_net net_up q = FetchResponds st stText (Inr (Some body))
         \<and> Some (9 / 10) = ds_confidence body)"
proof -
  have d: "data (fst (sendMessage net_up refund_request)) =
     Some \<lparr>response = ''Refunds take 5 days.'', source = Dataset, session_id = ''s1'',
           response_time = 1 / 4, res_timestamp = ''2024-01-01T00:00:01.250Z'',
           confidence = Some (9 / 10)\<rparr>"
    unfolding refund_up_eval
    by (simp add: dataset_result_def sample_reply_def elapsed_def net_up_def)
  from confidence_source [OF d] d show ?thesis by simp
qed

subsection \<open>C6: the health flags\<close>

text \<open>
  C6: \<open>healthCheck\<close> reports each backend as available exactly when its own probe
  succeeds, and \<open>hybrid_mode\<close> exactly when both do. Replacing the reply to one probe
  leaves the flag of the other backend unchanged.
\<close>

theorem health_flags:
  "data (healthCheck e) =
     Some \<lparr>dataset_backend = dataset_probe_succeeds (dataset_health_net e),
           gemini_api = gemini_probe_succeeds (gemini_health_net e),
           hybrid_mode = (dataset_probe_succeeds (dataset_health_net e)
                          \<and> gemini_probe_succeeds (gemini_health_net e))\<rparr>
   \<and> map_option dataset_backend (data (healthCheck (e\<lparr>gemini_health_net := g\<rparr>)))
       = map_option dataset_backend (data (healthCheck e))
   \<and> map_option gemini_api (data (healthCheck (e\<lparr>dataset_health_net := f\<rparr>)))
       = map_option gemini_api (data (healthCheck e))"
  by (simp add: healthCheck_def Let_def allSettled_dataset_probe allSettled_gemini_probe)

theorem health_flags_witness:
  "data (healthCheck net_up) =
     Some \<lparr>dataset_backend = True, gemini_api = True, hybrid_mode = True\<rparr>
   \<and> data (healthCheck (net_up\<lparr>gemini_health_net := Rejected failed_fetch\<rparr>)) =
       Some \<lparr>dataset_backend = True, gemini_api = False, hybrid_mode = False\<rparr>"
  using health_flags [of net_up] health_flags [of "net_up\<lparr>gemini_health_net := Rejected failed_fetch\<rparr>"]
  by (simp add: net_up_def dataset_probe_succeeds_def gemini_probe_succeeds_def)

subsection \<open>C7: the support-query classifier\<close>

text \<open>
  C7: \<open>isCustomerSupportQuery\<close> holds exactly when the lowercased message contains
  one of the nineteen keywords as a contiguous run.
\<close>

theorem support_classifier:
  "isCustomerSupportQuery msg \<longleftrightarrow>
     (\<exists>k \<in> set [''help'', ''support'', ''problem'', ''issue'', ''error'', ''bug'', ''complaint'',
                 ''refund'', ''return'', ''cancel'', ''billing'', ''payment'', ''account'',
                 ''login'', ''password'', ''reset'', ''contact'', ''phone'', ''email''].
        \<exists>p s. toLowerCase msg = p @ k @ s)"
  unfolding isCustomerSupportQuery_def supportKeywords_def Let_def list_ex_iff str_includes_iff ..

theorem support_classifier_witness:
  "isCustomerSupportQuery ''I need a REFUND'' \<and> \<not> isCustomerSupportQuery ''tell me a joke''"
proof -
  have "\<exists>p s. toLowerCase ''I need a REFUND'' = p @ ''refund'' @ s"
    using lower_refund by blast
  then have "isCustomerSupportQuery ''I need a REFUND''"
    unfolding support_classifier [of "''I need a REFUND''"] by simp
  with joke_not_support show ?thesis by simp
qed

subsection \<open>C8: the session id\<close>

text \<open>
  C8 says that a request with the empty session id gets a freshly generated token back
  rather than the empty string. The token is
  \<open>Math.random().toString(36).substring(7)\<close>, and the draw 0.5 prints as \<open>0.i\<close>, so the
  token is itself the empty string and the result carries the empty string.
\<close>

theorem empty_token_echo:
  "random_token net_half = []
   \<and> map_option session_id
        (data (fst (sendMessage net_half (joke_request\<lparr>req_session_id := Some []\<rparr>)))) = Some []"
  by (simp add: stage_unfold joke_request_def net_half_def net_up_def joke_not_support or_else_def
      gemini_request_def gemini_result_def sample_answer_def random_token_def substring_def)

text \<open>
  C8 as amended: a request with the empty session id is answered exactly as the same
  request without one; a result that carries data has the session id of the request
  when that is a non-empty string, and otherwise the generated token, which is the
  empty string exactly when the base-36 text of the draw has at most seven characters.
\<close>

theorem session_token:
  "sendMessage e (r\<lparr>req_session_id := Some []\<rparr>) = sendMessage e (r\<lparr>req_session_id := None\<rparr>)
   \<and> (data (fst (sendMessage e (r\<lparr>req_session_id := Some s\<rparr>))) = Some d
      \<longrightarrow> session_id d = (if s = [] then substring (random_text e) 7 else s))
   \<and> (data (fst (sendMessage e (r\<lparr>req_session_id := None\<rparr>))) = Some d'
      \<longrightarrow> session_id d' = substring (random_text e) 7)
   \<and> (substring (random_text e) 7 = []) = (length (random_text e) \<le> 7)"
proof -
  have sid: "data (fst (sendMessage e q)) = Some x
               \<Longrightarrow> session_id x = or_else (req_session_id q) (random_token e)" for q x
    using sendMessage_cases [of e q]
    by (elim disjE exE conjE) (auto simp: result_simps)
  have "sendMessage e (r\<lparr>req_session_id := Some []\<rparr>) = sendMessage e (r\<lparr>req_session_id := None\<rparr>)"
    by (simp add: sendMessage_def or_else_def sendMessage_try_session)
  moreover have "data (fst (sendMessage e (r\<lparr>req_session_id := Some s\<rparr>))) = Some d
      \<longrightarrow> session_id d = (if s = [] then substring (random_text e) 7 else s)"
    using sid [of "r\<lparr>req_session_id := Some s\<rparr>" d]
    by (simp add: or_else_def random_token_def)
  moreover have "data (fst (sendMessage e (r\<lparr>req_session_id := None\<rparr>))) = Some d'
      \<longrightarrow> session_id d' = substring (random_text e) 7"
    using sid [of "r\<lparr>req_session_id := None\<rparr>" d']
    by (simp add: or_else_def random_token_def)
  moreover have "(substring (random_text e) 7 = []) = (length (random_text e) \<le> 7)"
    by (simp add: substring_def)
  ultimately show ?thesis by blast
qed

theorem session_token_witness:
  "map_option session_id (data (fst (sendMessage net_up (joke_request\<lparr>req_session_id := Some ''abc''\<rparr>))))
     = Some ''abc''
   \<and> map_option session_id (data (fst (sendMessage net_up (joke_request\<lparr>req_session_id := Some []\<rparr>))))
     = Some ''k3x9q''"
proof -
  have "\<exists>d. data (fst (sendMessage net_up (joke_request\<lparr>req_session_id := Some s\<rparr>))) = Some d" for s
    by (simp add: stage_unfold joke_request_def net_up_def joke_not_support
        gemini_request_def gemini_result_def sample_answer_def)
  then obtain d1 d2 where
    d1: "data (fst (sendMessage net_up (joke_request\<lparr>req_session_id := Some ''abc''\<rparr>))) = Some d1"
    and d2: "data (fst (sendMessage net_up (joke_request\<lparr>req_session_id := Some []\<rparr>))) = Some d2"
    by blast
  have t: "substring (random_text net_up) 7 = ''k3x9q''"
    by (simp add: net_up_def token_k3x9q)
  from session_token [where e = net_up and r = joke_request and s = "''abc''" and d = d1] d1
  have "session_id d1 = ''abc''" by simp
  moreover
  from session_token [where e = net_up and r = joke_request and s = "[]" and d = d2] d2 t
  have "session_id d2 = ''k3x9q''" by simp
  ultimately show ?thesis by (simp add: d1 d2)
qed

subsection \<open>C9: the model type sent to the dataset backend\<close>

text \<open>
  C9: every call to the dataset backend carries the model type of the request, or
  \<open>enhanced\<close> when the request has none.
\<close>

theorem dataset_model_type:
  "DatasetSend q \<in> set (snd (sendMessage e r)) \<Longrightarrow>
   chat_model_type q = Some (case req_model_type r of None \<Rightarrow> Enhanced | Some m \<Rightarrow> m)"
  using sendMessage_cases [of e r]
  by (elim disjE exE conjE) (auto simp: dataset_request_def split: if_splits)

theorem dataset_model_type_witness:
  "DatasetSend (dataset_request refund_request ''s1'') \<in> set (snd (sendMessage net_up refund_request))
   \<and> chat_model_type (dataset_request refund_request ''s1'') = Some Enhanced
   \<and> req_model_type refund_request = None
   \<and> DatasetSend (dataset_request (refund_request\<lparr>req_model_type := Some Basic\<rparr>) ''s1'')
        \<in> set (snd (sendMessage net_up (refund_request\<lparr>req_model_type := Some Basic\<rparr>)))
   \<and> chat_model_type (dataset_request (refund_request\<lparr>req_model_type := Some Basic\<rparr>) ''s1'')
        = Some Basic"
  using dataset_model_type [of "dataset_request refund_request ''s1''" net_up refund_request]
    dataset_model_type [of "dataset_request (refund_request\<lparr>req_model_type := Some Basic\<rparr>) ''s1''"
      net_up "refund_request\<lparr>req_model_type := Some Basic\<rparr>"]
  by (simp add: refund_up_eval refund_basic_eval) (simp add: refund_request_def)

subsection \<open>C10: the status of the health check\<close>

text \<open>
  C10: the status of \<open>healthCheck\<close> is success when at least one probe succeeds and
  error exactly when both fail; the flags are reported in either case.
\<close>

theorem health_status:
  "status (healthCheck e) =
     (if dataset_probe_succeeds (dataset_health_net e) \<or> gemini_probe_succeeds (gemini_health_net e)
      then Success else Error)
   \<and> (status (healthCheck e) = Error) =
       (\<not> dataset_probe_succeeds (dataset_health_net e) \<and> \<not> gemini_probe_succeeds (gemini_health_net e))
   \<and> data (healthCheck e) \<noteq> None"
  by (simp add: healthCheck_def Let_def allSettled_dataset_probe allSettled_gemini_probe)

theorem health_status_witness:
  "status (healthCheck net_down) = Error
   \<and> status (healthCheck (net_up\<lparr>gemini_health_net := Rejected failed_fetch\<rparr>)) = Success"
  using health_status [of net_down]
    health_status [of "net_up\<lparr>gemini_health_net := Rejected failed_fetch\<rparr>"]
  by (simp add: net_up_def net_down_def dataset_probe_succeeds_def gemini_probe_succeeds_def)

end
